theory Spec2Isabelle
  imports Complex_Main "HOL-Library.FSet"
begin

section \<open>Data model of \<open>distributed_systems.py\<close>\<close>

text \<open>
  The enum \<open>NodeState\<close>, the dataclasses \<open>LogEntry\<close> and \<open>Message\<close> and the mutable
  fields of \<open>RaftNode\<close>. Python integers are \<open>int\<close>, wall-clock readings
  (\<open>time.time()\<close>) are \<open>real\<close> values handed to the operation that reads the clock.
  The \<open>timestamp\<close> fields of \<open>LogEntry\<close> and \<open>Message\<close> are written once at construction
  and read nowhere, and \<open>RaftNode.message_queue\<close> and the locks are never used to
  decide anything; they are left out. Field names that clash with Isabelle keywords or
  HOL constants carry a prefix or suffix: \<open>entry_term\<close>, \<open>msg_type\<close>, \<open>msg_term\<close>,
  \<open>log_entries\<close>.
\<close>

datatype NodeState = FOLLOWER | CANDIDATE | LEADER | FAILED

datatype py_error = KeyError | TypeError | AttributeError | IndexError

record LogEntry =
  entry_term :: int
  index :: int
  command :: string

text \<open>
  \<open>Message.data\<close> is a dict. The keys that the code ever writes or reads are the seven
  below; a key that is absent from the dict is \<open>None\<close> here.
\<close>

record MsgData =
  last_log_index :: "int option"
  last_log_term :: "int option"
  vote_granted :: "bool option"
  prev_log_index :: "int option"
  prev_log_term :: "int option"
  entries :: "LogEntry list option"
  leader_commit :: "int option"

record Message =
  msg_type :: string
  from_node :: string
  to_node :: string
  msg_term :: int
  data :: "MsgData option"

record RaftNode =
  node_id :: string
  cluster_nodes :: "string list"
  state :: NodeState
  current_term :: int
  voted_for :: "string option"
  log_entries :: "LogEntry list"
  commit_index :: int
  last_applied :: int
  next_index :: "string \<rightharpoonup> int"
  match_index :: "string \<rightharpoonup> int"
  election_timeout :: real
  last_heartbeat :: real
  votes_received :: "string fset"
  is_failed :: bool
  network_partition :: bool

definition empty_data :: MsgData where
  "empty_data =
     \<lparr>last_log_index = None, last_log_term = None, vote_granted = None,
      prev_log_index = None, prev_log_term = None, entries = None, leader_commit = None\<rparr>"

text \<open>
  \<open>RaftNode.__init__\<close>. The election timeout is drawn by \<open>random.uniform(1.5, 3.0)\<close>
  and the first \<open>last_heartbeat\<close> is the clock reading; both are parameters.
\<close>

definition RaftNode_init :: "string \<Rightarrow> string list \<Rightarrow> real \<Rightarrow> real \<Rightarrow> RaftNode" where
  "RaftNode_init nid ids timeout now =
     \<lparr>node_id = nid, cluster_nodes = ids, state = FOLLOWER, current_term = 0,
      voted_for = None, log_entries = [], commit_index = 0, last_applied = 0,
      next_index = Map.empty, match_index = Map.empty,
      election_timeout = timeout, last_heartbeat = now, votes_received = {||},
      is_failed = False, network_partition = False\<rparr>"

subsection \<open>Python list slicing\<close>

text \<open>\<open>xs[i:]\<close> and \<open>xs[:i]\<close>: a negative bound counts from the end and is clamped at 0.\<close>

definition py_slice_from :: "'a list \<Rightarrow> int \<Rightarrow> 'a list" where
  "py_slice_from xs i =
     (if 0 \<le> i then drop (nat i) xs else drop (nat (int (length xs) + i)) xs)"

definition py_slice_to :: "'a list \<Rightarrow> int \<Rightarrow> 'a list" where
  "py_slice_to xs i =
     (if 0 \<le> i then take (nat i) xs else take (nat (int (length xs) + i)) xs)"

definition last_log_index_of :: "LogEntry list \<Rightarrow> int" where
  "last_log_index_of lg = (if lg \<noteq> [] then int (length lg) - 1 else - 1)"

definition last_log_term_of :: "LogEntry list \<Rightarrow> int" where
  "last_log_term_of lg = (if lg \<noteq> [] then entry_term (last lg) else 0)"

section \<open>\<open>RaftNode\<close> operations\<close>

text \<open>
  Every operation takes the node and returns the node after the call. The second
  component, where there is one, is the outbox: the messages the call passes to
  \<open>self.send_message\<close>, in call order. What happens to them is the transport's business
  (\<open>send_message\<close> below, or the coordinator's queue).
\<close>

definition send_message :: "RaftNode \<Rightarrow> Message \<Rightarrow> Message list" where
  "send_message n m = (if \<not> network_partition n then [m] else [])"

definition vote_request_msg :: "RaftNode \<Rightarrow> string \<Rightarrow> Message" where
  "vote_request_msg n node =
     \<lparr>msg_type = ''vote_request'', from_node = node_id n, to_node = node,
      msg_term = current_term n,
      data = Some (empty_data\<lparr>last_log_index := Some (last_log_index_of (log_entries n)),
                              last_log_term := Some (last_log_term_of (log_entries n))\<rparr>)\<rparr>"

definition start_election :: "RaftNode \<Rightarrow> RaftNode \<times> Message list" where
  "start_election n =
     (if is_failed n then (n, [])
      else
        let n1 = n\<lparr>state := CANDIDATE, current_term := current_term n + 1,
                   voted_for := Some (node_id n), votes_received := {|node_id n|}\<rparr>
        in (n1, map (vote_request_msg n1) (filter (\<lambda>node. node \<noteq> node_id n1) (cluster_nodes n1))))"

definition vote_response_msg :: "RaftNode \<Rightarrow> Message \<Rightarrow> Message" where
  "vote_response_msg n m =
     \<lparr>msg_type = ''vote_response'', from_node = node_id n, to_node = from_node m,
      msg_term = current_term n,
      data = Some (empty_data\<lparr>vote_granted := Some True\<rparr>)\<rparr>"

definition handle_vote_request :: "RaftNode \<Rightarrow> Message \<Rightarrow> RaftNode \<times> Message list \<times> bool" where
  "handle_vote_request n m =
     (if is_failed n then (n, [], False)
      else
        let n1 = (if msg_term m > current_term n
                  then n\<lparr>current_term := msg_term m, voted_for := None, state := FOLLOWER\<rparr>
                  else n);
            can_vote = (msg_term m \<ge> current_term n1 \<and>
                        (voted_for n1 = None \<or> voted_for n1 = Some (from_node m)))
        in if can_vote
           then (let n2 = n1\<lparr>voted_for := Some (from_node m)\<rparr>
                 in (n2, [vote_response_msg n2 m], True))
           else (n1, [], False))"

definition heartbeat_msg :: "RaftNode \<Rightarrow> string \<Rightarrow> Message" where
  "heartbeat_msg n node =
     \<lparr>msg_type = ''append_entries'', from_node = node_id n, to_node = node,
      msg_term = current_term n,
      data = Some (empty_data\<lparr>prev_log_index := Some (last_log_index_of (log_entries n)),
                              prev_log_term := Some (last_log_term_of (log_entries n)),
                              entries := Some [],
                              leader_commit := Some (commit_index n)\<rparr>)\<rparr>"

definition send_heartbeat :: "RaftNode \<Rightarrow> Message list" where
  "send_heartbeat n =
     (if state n \<noteq> LEADER \<or> is_failed n then []
      else map (heartbeat_msg n) (filter (\<lambda>node. node \<noteq> node_id n) (cluster_nodes n)))"

definition init_leader_state :: "RaftNode \<Rightarrow> string \<Rightarrow> RaftNode" where
  "init_leader_state n node =
     (if node \<noteq> node_id n
      then n\<lparr>next_index := (next_index n)(node \<mapsto> int (length (log_entries n))),
             match_index := (match_index n)(node \<mapsto> - 1)\<rparr>
      else n)"

definition become_leader :: "RaftNode \<Rightarrow> RaftNode \<times> Message list" where
  "become_leader n =
     (let n1 = n\<lparr>state := LEADER\<rparr>;
          n2 = foldl init_leader_state n1 (cluster_nodes n1)
      in (n2, send_heartbeat n2))"

text \<open>
  \<open>handle_vote_response\<close>. \<open>message.data.get("vote_granted")\<close> raises \<open>AttributeError\<close>
  when \<open>data\<close> is \<open>None\<close> (the third component), and is falsy when the key is absent.
\<close>

definition handle_vote_response ::
  "RaftNode \<Rightarrow> Message \<Rightarrow> RaftNode \<times> Message list \<times> py_error option" where
  "handle_vote_response n m =
     (if state n \<noteq> CANDIDATE \<or> msg_term m \<noteq> current_term n \<or> is_failed n
      then (n, [], None)
      else
        case data m of
          None \<Rightarrow> (n, [], Some AttributeError)
        | Some d \<Rightarrow>
            if vote_granted d = Some True
            then (let n1 = n\<lparr>votes_received := finsert (from_node m) (votes_received n)\<rparr>
                  in if int (fcard (votes_received n1)) > int (length (cluster_nodes n1)) div 2
                     then (let (n2, out) = become_leader n1 in (n2, out, None))
                     else (n1, [], None))
            else (n, [], None))"

text \<open>
  \<open>replicate_log\<close>. Building the message for a peer reads \<open>self.log[next_idx - 1]\<close>
  when \<open>next_idx > 0\<close>, which raises \<open>IndexError\<close> past the end of the log; the loop
  then stops, with the earlier messages already sent.
\<close>

definition append_msg :: "RaftNode \<Rightarrow> string \<Rightarrow> py_error + Message" where
  "append_msg n node =
     (let next_idx = (case next_index n node of None \<Rightarrow> 0 | Some i \<Rightarrow> i);
          es = (if next_idx < int (length (log_entries n))
                then py_slice_from (log_entries n) next_idx else [])
      in if next_idx > 0 \<and> \<not> (next_idx - 1 < int (length (log_entries n)))
         then Inl IndexError
         else Inr \<lparr>msg_type = ''append_entries'', from_node = node_id n, to_node = node,
                   msg_term = current_term n,
                   data = Some (empty_data\<lparr>
                     prev_log_index := Some (next_idx - 1),
                     prev_log_term := Some (if next_idx > 0
                                            then entry_term (log_entries n ! nat (next_idx - 1))
                                            else 0),
                     entries := Some es,
                     leader_commit := Some (commit_index n)\<rparr>)\<rparr>)"

fun replicate_to :: "RaftNode \<Rightarrow> string list \<Rightarrow> Message list \<times> py_error option" where
  "replicate_to n [] = ([], None)"
| "replicate_to n (node # rest) =
     (if node \<noteq> node_id n
      then (case append_msg n node of
              Inl e \<Rightarrow> ([], Some e)
            | Inr msg \<Rightarrow> (let (out, err) = replicate_to n rest in (msg # out, err)))
      else replicate_to n rest)"

definition replicate_log :: "RaftNode \<Rightarrow> Message list \<times> py_error option" where
  "replicate_log n = (if state n \<noteq> LEADER then ([], None) else replicate_to n (cluster_nodes n))"

definition append_entry ::
  "RaftNode \<Rightarrow> string \<Rightarrow> RaftNode \<times> Message list \<times> (py_error + bool)" where
  "append_entry n cmd =
     (if state n \<noteq> LEADER \<or> is_failed n then (n, [], Inr False)
      else
        let entry = \<lparr>entry_term = current_term n, index = int (length (log_entries n)),
                     command = cmd\<rparr>;
            n1 = n\<lparr>log_entries := log_entries n @ [entry]\<rparr>;
            (out, err) = replicate_log n1
        in (n1, out, case err of None \<Rightarrow> Inr True | Some e \<Rightarrow> Inl e))"

text \<open>
  \<open>handle_append_entries\<close>. The dict reads raise \<open>KeyError\<close> (\<open>TypeError\<close> when
  \<open>data\<close> is \<open>None\<close>) at the place where the source reads them, after the assignments
  that precede the read; the node returned is the node at that point.
\<close>

definition handle_append_entries ::
  "RaftNode \<Rightarrow> real \<Rightarrow> Message \<Rightarrow> RaftNode \<times> (py_error + bool)" where
  "handle_append_entries n now m =
     (if is_failed n then (n, Inr False)
      else
        let n1 = (if msg_term m \<ge> current_term n
                  then n\<lparr>current_term := msg_term m, state := FOLLOWER,
                         voted_for := None, last_heartbeat := now\<rparr>
                  else n)
        in if msg_term m < current_term n1 then (n1, Inr False)
           else
             case data m of
               None \<Rightarrow> (n1, Inl TypeError)
             | Some d \<Rightarrow>
                 (case prev_log_index d of
                    None \<Rightarrow> (n1, Inl KeyError)
                  | Some pli \<Rightarrow>
                      (case prev_log_term d of
                         None \<Rightarrow> (n1, Inl KeyError)
                       | Some plt \<Rightarrow>
                           if pli \<ge> 0 \<and>
                              (int (length (log_entries n1)) \<le> pli \<or>
                               entry_term (log_entries n1 ! nat pli) \<noteq> plt)
                           then (n1, Inr False)
                           else
                             (case entries d of
                                None \<Rightarrow> (n1, Inl KeyError)
                              | Some es \<Rightarrow>
                                  let n2 = (if es \<noteq> []
                                            then n1\<lparr>log_entries :=
                                                   py_slice_to (log_entries n1) (pli + 1) @ es\<rparr>
                                            else n1)
                                  in (case leader_commit d of
                                        None \<Rightarrow> (n2, Inl KeyError)
                                      | Some lc \<Rightarrow>
                                          let n3 = (if lc > commit_index n2
                                                    then n2\<lparr>commit_index :=
                                                           min lc (int (length (log_entries n2)) - 1)\<rparr>
                                                    else n2)
                                          in (n3, Inr True))))))"

definition fail_node :: "RaftNode \<Rightarrow> RaftNode" where
  "fail_node n = n\<lparr>is_failed := True, state := FAILED\<rparr>"

definition recover_node :: "RaftNode \<Rightarrow> real \<Rightarrow> RaftNode" where
  "recover_node n now = n\<lparr>is_failed := False, state := FOLLOWER, last_heartbeat := now\<rparr>"

definition partition_node :: "RaftNode \<Rightarrow> bool \<Rightarrow> RaftNode" where
  "partition_node n partitioned = n\<lparr>network_partition := partitioned\<rparr>"

section \<open>\<open>RaftCluster\<close>: the coordinator\<close>

text \<open>
  The coordinator owns the dict of nodes (an association list in insertion order, with
  distinct keys; the node objects are mutated in place, so a handler's result replaces
  the value under the same key) and the message queue. The functions below follow the
  wiring of \<open>demo_raft_consensus\<close>, which replaces every node's \<open>send_message\<close> by
  \<open>RaftCluster.send_message\<close>: the outbox of a node operation is appended to the
  queue. (Unwired, \<open>RaftNode._deliver_message\<close> is \<open>pass\<close> and no message reaches any
  node.)
\<close>

record RaftCluster =
  nodes :: "(string \<times> RaftNode) list"
  running :: bool
  message_queue :: "Message list"

text \<open>Keys of a dict comprehension over a list: first occurrences, in order.\<close>

definition dict_keys :: "string list \<Rightarrow> string list" where
  "dict_keys ids = rev (remdups (rev ids))"

definition RaftCluster_init :: "string list \<Rightarrow> (string \<Rightarrow> real) \<Rightarrow> real \<Rightarrow> RaftCluster" where
  "RaftCluster_init node_ids timeouts now =
     \<lparr>nodes = map (\<lambda>i. (i, RaftNode_init i node_ids (timeouts i) now)) (dict_keys node_ids),
      running = False, message_queue = []\<rparr>"

definition cluster_send_message :: "RaftCluster \<Rightarrow> Message \<Rightarrow> RaftCluster" where
  "cluster_send_message c m = c\<lparr>message_queue := message_queue c @ [m]\<rparr>"

definition send_all :: "RaftCluster \<Rightarrow> Message list \<Rightarrow> RaftCluster" where
  "send_all c ms = foldl cluster_send_message c ms"

definition set_node :: "RaftCluster \<Rightarrow> string \<Rightarrow> RaftNode \<Rightarrow> RaftCluster" where
  "set_node c key n =
     c\<lparr>nodes := map (\<lambda>(k, v). if k = key then (k, n) else (k, v)) (nodes c)\<rparr>"

definition start :: "RaftCluster \<Rightarrow> RaftCluster" where
  "start c = c\<lparr>running := True\<rparr>"

definition stop :: "RaftCluster \<Rightarrow> RaftCluster" where
  "stop c = c\<lparr>running := False\<rparr>"

text \<open>One pass through the body of the \<open>while\<close> loop of \<open>_run_node\<close>, at clock reading \<open>now\<close>.\<close>

definition run_node_iteration :: "RaftCluster \<Rightarrow> string \<Rightarrow> real \<Rightarrow> RaftCluster" where
  "run_node_iteration c key now =
     (case map_of (nodes c) key of
        None \<Rightarrow> c
      | Some node \<Rightarrow>
          if is_failed node then c
          else
            let (n1, out1) =
                  (if (state node = FOLLOWER \<or> state node = CANDIDATE) \<and>
                      now - last_heartbeat node > election_timeout node
                   then start_election node else (node, []));
                out2 = (if state n1 = LEADER then send_heartbeat n1 else [])
            in send_all (set_node c key n1) (out1 @ out2))"

text \<open>
  The body of the \<open>for\<close> loop of \<open>_process_messages\<close> for one message. The boolean that
  \<open>handle_vote_request\<close> and \<open>handle_append_entries\<close> return is dropped there; an
  exception is the second component.
\<close>

definition deliver :: "RaftCluster \<Rightarrow> real \<Rightarrow> Message \<Rightarrow> RaftCluster \<times> py_error option" where
  "deliver c now m =
     (case map_of (nodes c) (to_node m) of
        None \<Rightarrow> (c, None)
      | Some target \<Rightarrow>
          if is_failed target then (c, None)
          else if msg_type m = ''vote_request''
          then (let (n1, out, granted) = handle_vote_request target m
                in (send_all (set_node c (to_node m) n1) out, None))
          else if msg_type m = ''vote_response''
          then (let (n1, out, err) = handle_vote_response target m
                in (send_all (set_node c (to_node m) n1) out, err))
          else if msg_type m = ''append_entries''
          then (let (n1, res) = handle_append_entries target now m
                in (set_node c (to_node m) n1,
                    case res of Inl e \<Rightarrow> Some e | Inr success \<Rightarrow> None))
          else (c, None))"

text \<open>
  \<open>_process_messages\<close> copies the queue, clears it and handles the copy front to back,
  while the handlers append to the cleared queue: messages are handled in the order in
  which they were enqueued. \<open>process_next\<close> handles the oldest message; a pass of the
  \<open>while\<close> loop is as many \<open>process_next\<close> as the copy is long, and taking them one at a
  time lets the node threads run in between, as they do. When a handler raises, the
  processor thread ends; \<open>process_next\<close> keeps the cluster as the handler left it.
\<close>

definition process_next :: "RaftCluster \<Rightarrow> real \<Rightarrow> RaftCluster" where
  "process_next c now =
     (case message_queue c of
        [] \<Rightarrow> c
      | m # rest \<Rightarrow> fst (deliver (c\<lparr>message_queue := rest\<rparr>) now m))"

definition get_leader :: "RaftCluster \<Rightarrow> string option" where
  "get_leader c =
     (case filter (\<lambda>(k, n). state n = LEADER \<and> \<not> is_failed n) (nodes c) of
        [] \<Rightarrow> None
      | (k, n) # rest \<Rightarrow> Some (node_id n))"

text \<open>
  \<open>append_command\<close>. \<open>if leader_id:\<close> tests the truth value of the id, so the empty
  string counts as no leader; \<open>self.nodes[leader_id]\<close> raises \<open>KeyError\<close> for a
  missing key.
\<close>

definition append_command :: "RaftCluster \<Rightarrow> string \<Rightarrow> RaftCluster \<times> (py_error + bool)" where
  "append_command c cmd =
     (case get_leader c of
        None \<Rightarrow> (c, Inr False)
      | Some leader_id \<Rightarrow>
          if leader_id \<noteq> []
          then (case map_of (nodes c) leader_id of
                  None \<Rightarrow> (c, Inl KeyError)
                | Some n \<Rightarrow>
                    (let (n1, out, res) = append_entry n cmd
                     in (send_all (set_node c leader_id n1) out, res)))
          else (c, Inr False))"

definition cluster_fail_node :: "RaftCluster \<Rightarrow> string \<Rightarrow> RaftCluster" where
  "cluster_fail_node c key =
     (case map_of (nodes c) key of None \<Rightarrow> c | Some n \<Rightarrow> set_node c key (fail_node n))"

definition cluster_recover_node :: "RaftCluster \<Rightarrow> string \<Rightarrow> real \<Rightarrow> RaftCluster" where
  "cluster_recover_node c key now =
     (case map_of (nodes c) key of None \<Rightarrow> c | Some n \<Rightarrow> set_node c key (recover_node n now))"

definition partition_one :: "bool \<Rightarrow> RaftCluster \<Rightarrow> string \<Rightarrow> RaftCluster" where
  "partition_one partitioned c key =
     (case map_of (nodes c) key of
        None \<Rightarrow> c
      | Some n \<Rightarrow> set_node c key (partition_node n partitioned))"

definition partition_nodes :: "RaftCluster \<Rightarrow> string list \<Rightarrow> bool \<Rightarrow> RaftCluster" where
  "partition_nodes c keys partitioned = foldl (partition_one partitioned) c keys"

subsection \<open>Executions of the cluster\<close>

text \<open>
  What can happen to a cluster: the driver's calls (\<open>start\<close>, \<open>stop\<close>,
  \<open>append_command\<close>, \<open>fail_node\<close>, \<open>recover_node\<close>, \<open>partition_nodes\<close>), a pass of
  a node's loop, and the message processor handling the oldest queued message. The two
  threads' loops run only while \<open>running\<close> holds. Each of these runs to its end before
  the next one starts: the handlers and \<open>start_election\<close> hold the node's lock, and
  the other operations are single assignments or only send messages. The clock readings
  are part of the event, so an execution fixes the schedule of the threads as well.
\<close>

datatype event =
    Start
  | Stop
  | RunNode string real
  | ProcessMessage real
  | AppendCommand string
  | FailNode string
  | RecoverNode string real
  | PartitionNodes "string list" bool

fun step :: "RaftCluster \<Rightarrow> event \<Rightarrow> RaftCluster" where
  "step c Start = start c"
| "step c Stop = stop c"
| "step c (RunNode key now) = (if running c then run_node_iteration c key now else c)"
| "step c (ProcessMessage now) = (if running c then process_next c now else c)"
| "step c (AppendCommand cmd) = fst (append_command c cmd)"
| "step c (FailNode key) = cluster_fail_node c key"
| "step c (RecoverNode key now) = cluster_recover_node c key now"
| "step c (PartitionNodes keys partitioned) = partition_nodes c keys partitioned"

definition run :: "RaftCluster \<Rightarrow> event list \<Rightarrow> RaftCluster" where
  "run c evs = foldl step c evs"

inductive reachable :: "RaftCluster \<Rightarrow> bool" where
  init: "reachable (RaftCluster_init node_ids timeouts now)"
| step: "reachable c \<Longrightarrow> reachable (step c e)"

section \<open>Observations on executions\<close>

text \<open>
  The nodes that a step turns into \<open>LEADER\<close>, each with the term it leads, and the
  list of these role transitions along an execution, in order.
\<close>

definition new_leaders :: "RaftCluster \<Rightarrow> RaftCluster \<Rightarrow> (string \<times> int) list" where
  "new_leaders c c' =
     map (\<lambda>(k, n'). (k, current_term n'))
       (filter (\<lambda>(k, n'). state n' = LEADER \<and>
                  (case map_of (nodes c) k of None \<Rightarrow> True | Some n \<Rightarrow> state n \<noteq> LEADER))
          (nodes c'))"

fun elections :: "RaftCluster \<Rightarrow> event list \<Rightarrow> (string \<times> int) list" where
  "elections c [] = []"
| "elections c (e # es) = new_leaders c (step c e) @ elections (step c e) es"

text \<open>A candidate handling a list of vote responses, one after the other.\<close>

definition handle_vote_responses :: "RaftNode \<Rightarrow> Message list \<Rightarrow> RaftNode" where
  "handle_vote_responses n ms = foldl (\<lambda>a m. fst (handle_vote_response a m)) n ms"

text \<open>
  A message is quiet when it carries no \<open>leader_commit\<close> above 0. In a cluster that has
  only run its own code every node has \<open>commit_index = 0\<close> and every queued message is
  quiet: this is the invariant behind claim C4.
\<close>

definition quiet :: "Message \<Rightarrow> bool" where
  "quiet m =
     (case data m of
        None \<Rightarrow> True
      | Some d \<Rightarrow> (case leader_commit d of None \<Rightarrow> True | Some lc \<Rightarrow> lc \<le> 0))"


text \<open>
  The senders of the responses in a list that carry the term \<open>t\<close> and grant the vote:
  the responses that \<open>handle_vote_response\<close> counts for a candidate of term \<open>t\<close>.
\<close>

definition is_grant :: "int \<Rightarrow> Message \<Rightarrow> bool" where
  "is_grant t m =
     (msg_term m = t \<and> (case data m of None \<Rightarrow> False | Some d \<Rightarrow> vote_granted d = Some True))"

definition granted_voters :: "int \<Rightarrow> Message list \<Rightarrow> string set" where
  "granted_voters t ms = from_node ` set (filter (is_grant t) ms)"

text \<open>
  What stays true of a cluster built from the single id \<open>i\<close>: it has the one node, that
  node is not \<open>LEADER\<close>, and the queue is empty.
\<close>

definition solo_inv :: "string \<Rightarrow> RaftCluster \<Rightarrow> bool" where
  "solo_inv i c =
     (map fst (nodes c) = [i] \<and>
      list_all (\<lambda>(k, n). node_id n = i \<and> cluster_nodes n = [i] \<and> state n \<noteq> LEADER) (nodes c) \<and>
      message_queue c = [])"

section \<open>Example states\<close>

text \<open>
  A three-node cluster with election timeouts inside the range of
  \<open>random.uniform(1.5, 3.0)\<close>, and the executions and messages that the statements
  below run the code on.
\<close>

definition ids3 :: "string list" where
  "ids3 = [''n1'', ''n2'', ''n3'']"

definition ids5 :: "string list" where
  "ids5 = [''n1'', ''n2'', ''n3'', ''n4'', ''n5'']"

definition timeouts3 :: "string \<Rightarrow> real" where
  "timeouts3 i = (if i = ''n1'' then 3 / 2 else if i = ''n2'' then 3 else 2)"

definition cluster3 :: RaftCluster where
  "cluster3 = RaftCluster_init ids3 timeouts3 0"

text \<open>
  \<open>n3\<close> is down; \<open>n1\<close> times out, asks for votes, gets the vote of \<open>n2\<close>, becomes
  leader of term 1 and its first heartbeat reaches \<open>n2\<close>.
\<close>

definition elect_n1 :: "event list" where
  "elect_n1 =
     [Start, FailNode ''n3'', RunNode ''n1'' 2,
      ProcessMessage 2, ProcessMessage 2, ProcessMessage 2, ProcessMessage 2, ProcessMessage 2]"

text \<open>
  Then \<open>n1\<close> goes down and \<open>n3\<close> comes back, still in term 0; it times out before
  \<open>n2\<close> does, asks for votes in term 1 and gets the vote of \<open>n2\<close>.
\<close>

definition elect_n3 :: "event list" where
  "elect_n3 =
     [FailNode ''n1'', RecoverNode ''n3'' (5 / 2), RunNode ''n3'' (19 / 4),
      ProcessMessage (19 / 4), ProcessMessage (19 / 4), ProcessMessage (19 / 4)]"

text \<open>
  After \<open>elect_n1\<close>: the leader appends \<open>a\<close>, which reaches \<open>n2\<close> only; \<open>n1\<close> is
  restarted and \<open>n3\<close> comes back with an empty log; \<open>n1\<close> wins term 2 (so
  \<open>next_index\<close> is 1 for both peers) and appends \<open>b\<close>. The two \<open>append_entries\<close>
  messages for \<open>b\<close> are then in the queue.
\<close>

definition replicate_b :: "event list" where
  "replicate_b =
     elect_n1 @
     [AppendCommand ''a'', ProcessMessage 2, ProcessMessage 2,
      FailNode ''n1'', RecoverNode ''n1'' (5 / 2), RecoverNode ''n3'' (5 / 2),
      RunNode ''n1'' (17 / 4),
      ProcessMessage (17 / 4), ProcessMessage (17 / 4), ProcessMessage (17 / 4),
      ProcessMessage (17 / 4), ProcessMessage (17 / 4), ProcessMessage (17 / 4),
      AppendCommand ''b'']"


text \<open>A two-node cluster whose first node has the empty string as its id, and its election.\<close>

definition timeouts2 :: "string \<Rightarrow> real" where
  "timeouts2 i = (if i = [] then 3 / 2 else 3)"

definition cluster_anon :: RaftCluster where
  "cluster_anon = RaftCluster_init [[], ''b''] timeouts2 0"

definition elect_anon :: "event list" where
  "elect_anon = [Start, RunNode [] 2, ProcessMessage 2, ProcessMessage 2]"





text \<open>A cluster of one node, which times out twice.\<close>

definition cluster_solo :: RaftCluster where
  "cluster_solo = RaftCluster_init [''n1''] timeouts3 0"

definition solo_campaign :: "event list" where
  "solo_campaign = [Start, RunNode ''n1'' 2, ProcessMessage 2, RunNode ''n1'' 4, ProcessMessage 4]"

text \<open>Single nodes and messages.\<close>

definition candidate_n2 :: RaftNode where
  "candidate_n2 =
     (RaftNode_init ''n2'' ids3 3 0)\<lparr>state := CANDIDATE, current_term := 3,
                                      voted_for := Some ''n2'', votes_received := {|''n2''|}\<rparr>"

definition probe_at_0 :: Message where
  "probe_at_0 =
     \<lparr>msg_type = ''append_entries'', from_node = ''n1'', to_node = ''n2'', msg_term = 4,
      data = Some (empty_data\<lparr>prev_log_index := Some 0, prev_log_term := Some 1,
                              entries := Some [], leader_commit := Some 0\<rparr>)\<rparr>"

definition request_in_term :: "int \<Rightarrow> Message" where
  "request_in_term t =
     vote_request_msg ((RaftNode_init ''n1'' ids3 (3 / 2) 0)\<lparr>current_term := t\<rparr>) ''n2''"

definition grant_from :: "string \<Rightarrow> int \<Rightarrow> Message" where
  "grant_from voter t =
     \<lparr>msg_type = ''vote_response'', from_node = voter, to_node = ''n2'', msg_term = t,
      data = Some (empty_data\<lparr>vote_granted := Some True\<rparr>)\<rparr>"

definition voter_with_log :: RaftNode where
  "voter_with_log =
     (RaftNode_init ''n2'' ids3 3 0)\<lparr>current_term := 1,
        log_entries := [\<lparr>entry_term = 1, index = 0, command = ''a''\<rparr>]\<rparr>"

section \<open>Properties of the node operations\<close>

lemma state_foldl_init_leader_state [simp]:
  "state (foldl init_leader_state n xs) = state n"
  by (induction xs arbitrary: n) (simp_all add: init_leader_state_def)

lemma votes_foldl_init_leader_state [simp]:
  "votes_received (foldl init_leader_state n xs) = votes_received n"
  by (induction xs arbitrary: n) (simp_all add: init_leader_state_def)

lemma cluster_nodes_foldl_init_leader_state [simp]:
  "cluster_nodes (foldl init_leader_state n xs) = cluster_nodes n"
  by (induction xs arbitrary: n) (simp_all add: init_leader_state_def)

lemma current_term_foldl_init_leader_state [simp]:
  "current_term (foldl init_leader_state n xs) = current_term n"
  by (induction xs arbitrary: n) (simp_all add: init_leader_state_def)

lemma commit_foldl_init_leader_state [simp]:
  "commit_index (foldl init_leader_state n xs) = commit_index n"
  by (induction xs arbitrary: n) (simp_all add: init_leader_state_def)

lemma node_id_foldl_init_leader_state [simp]:
  "node_id (foldl init_leader_state n xs) = node_id n"
  by (induction xs arbitrary: n) (simp_all add: init_leader_state_def)

lemma log_foldl_init_leader_state [simp]:
  "log_entries (foldl init_leader_state n xs) = log_entries n"
  by (induction xs arbitrary: n) (simp_all add: init_leader_state_def)

lemma next_index_foldl_init_leader_state:
  "next_index (foldl init_leader_state n xs) peer =
     (if peer \<in> set xs \<and> peer \<noteq> node_id n then Some (int (length (log_entries n)))
      else next_index n peer)"
  by (induction xs arbitrary: n) (auto simp add: init_leader_state_def)

lemma match_index_foldl_init_leader_state:
  "match_index (foldl init_leader_state n xs) peer =
     (if peer \<in> set xs \<and> peer \<noteq> node_id n then Some (- 1) else match_index n peer)"
  by (induction xs arbitrary: n) (auto simp add: init_leader_state_def)

lemma state_become_leader [simp]: "state (fst (become_leader n)) = LEADER"
  by (simp add: become_leader_def Let_def)

lemma votes_become_leader [simp]: "votes_received (fst (become_leader n)) = votes_received n"
  by (simp add: become_leader_def Let_def)

lemma cluster_nodes_become_leader [simp]:
  "cluster_nodes (fst (become_leader n)) = cluster_nodes n"
  by (simp add: become_leader_def Let_def)

lemma current_term_become_leader [simp]:
  "current_term (fst (become_leader n)) = current_term n"
  by (simp add: become_leader_def Let_def)

lemma commit_become_leader [simp]: "commit_index (fst (become_leader n)) = commit_index n"
  by (simp add: become_leader_def Let_def)

subsection \<open>\<open>handle_append_entries\<close>, field by field\<close>

lemma state_append_entries:
  "state (fst (handle_append_entries n now m)) =
     (if \<not> is_failed n \<and> current_term n \<le> msg_term m then FOLLOWER else state n)"
  by (simp add: handle_append_entries_def Let_def split: option.splits)

lemma current_term_append_entries:
  "current_term (fst (handle_append_entries n now m)) =
     (if \<not> is_failed n \<and> current_term n \<le> msg_term m then msg_term m else current_term n)"
  by (simp add: handle_append_entries_def Let_def split: option.splits)

lemma voted_for_append_entries:
  "voted_for (fst (handle_append_entries n now m)) =
     (if \<not> is_failed n \<and> current_term n \<le> msg_term m then None else voted_for n)"
  by (simp add: handle_append_entries_def Let_def split: option.splits)

lemma last_heartbeat_append_entries:
  "last_heartbeat (fst (handle_append_entries n now m)) =
     (if \<not> is_failed n \<and> current_term n \<le> msg_term m then now else last_heartbeat n)"
  by (simp add: handle_append_entries_def Let_def split: option.splits)


subsection \<open>Vote responses\<close>

lemma cluster_nodes_vote_response [simp]:
  "cluster_nodes (fst (handle_vote_response n m)) = cluster_nodes n"
  by (simp add: handle_vote_response_def Let_def case_prod_beta split: option.splits)

lemma current_term_vote_response [simp]:
  "current_term (fst (handle_vote_response n m)) = current_term n"
  by (simp add: handle_vote_response_def Let_def case_prod_beta split: option.splits)

lemma commit_vote_response [simp]:
  "commit_index (fst (handle_vote_response n m)) = commit_index n"
  by (simp add: handle_vote_response_def Let_def case_prod_beta split: option.splits)


lemma vote_response_leader_fixed:
  "state n = LEADER \<Longrightarrow> handle_vote_response n m = (n, [], None)"
  by (simp add: handle_vote_response_def)




lemma handle_vote_responses_Cons:
  "handle_vote_responses n (m # ms) = handle_vote_responses (fst (handle_vote_response n m)) ms"
  by (simp add: handle_vote_responses_def)

lemma vote_responses_leader_fixed:
  "state n = LEADER \<Longrightarrow> handle_vote_responses n ms = n"
  by (induction ms) (simp_all add: handle_vote_responses_def vote_response_leader_fixed)


lemma vote_response_not_grant:
  "\<not> is_grant (current_term a) m \<Longrightarrow> fst (handle_vote_response a m) = a"
  by (auto simp add: handle_vote_response_def is_grant_def split: option.splits)

lemma vote_response_grant_elects:
  "state a = CANDIDATE \<Longrightarrow> \<not> is_failed a \<Longrightarrow> is_grant (current_term a) m \<Longrightarrow>
     length (cluster_nodes a) < 2 * fcard (finsert (from_node m) (votes_received a)) \<Longrightarrow>
     state (fst (handle_vote_response a m)) = LEADER"
  by (auto simp add: handle_vote_response_def is_grant_def Let_def case_prod_beta
        split: option.splits)

lemma vote_response_grant_counts:
  "state a = CANDIDATE \<Longrightarrow> \<not> is_failed a \<Longrightarrow> is_grant (current_term a) m \<Longrightarrow>
     \<not> length (cluster_nodes a) < 2 * fcard (finsert (from_node m) (votes_received a)) \<Longrightarrow>
     fst (handle_vote_response a m) =
       a\<lparr>votes_received := finsert (from_node m) (votes_received a)\<rparr>"
  by (auto simp add: handle_vote_response_def is_grant_def Let_def case_prod_beta
        split: option.splits)

lemma granted_voters_Cons:
  "granted_voters t (m # ms) =
     (if is_grant t m then insert (from_node m) (granted_voters t ms) else granted_voters t ms)"
  by (simp add: granted_voters_def)

text \<open>
  A candidate that handles a list of responses ends as \<open>LEADER\<close> exactly when at least
  one of them is counted and the voters it already had, together with the senders of
  the counted responses, are more than half of \<open>cluster_nodes\<close>.
\<close>

lemma vote_responses_elect_iff:
  "state a = CANDIDATE \<Longrightarrow> \<not> is_failed a \<Longrightarrow>
     (state (handle_vote_responses a ms) = LEADER) =
     (granted_voters (current_term a) ms \<noteq> {} \<and>
      length (cluster_nodes a)
        < 2 * card (fset (votes_received a) \<union> granted_voters (current_term a) ms))"
proof (induction ms arbitrary: a)
  case Nil
  then show ?case by (simp add: handle_vote_responses_def granted_voters_def)
next
  case (Cons m ms)
  let ?t = "current_term a"
  let ?G = "granted_voters ?t ms"
  have fin: "finite ?G" by (simp add: granted_voters_def)
  show ?case
  proof (cases "is_grant ?t m")
    case False
    then have "fst (handle_vote_response a m) = a" by (rule vote_response_not_grant)
    with False Cons show ?thesis
      by (simp add: handle_vote_responses_Cons granted_voters_Cons)
  next
    case True
    let ?V = "finsert (from_node m) (votes_received a)"
    show ?thesis
    proof (cases "length (cluster_nodes a) < 2 * fcard ?V")
      case win: True
      with Cons.prems True have "state (fst (handle_vote_response a m)) = LEADER"
        by (intro vote_response_grant_elects)
      then have l: "state (handle_vote_responses a (m # ms)) = LEADER"
        by (simp add: handle_vote_responses_Cons vote_responses_leader_fixed)
      have "fcard ?V \<le> card (fset (votes_received a) \<union> insert (from_node m) ?G)"
        unfolding fcard.rep_eq using fin by (intro card_mono) auto
      with win l True show ?thesis
        by (simp add: granted_voters_Cons)
    next
      case lose: False
      with Cons.prems True have a1: "fst (handle_vote_response a m) = a\<lparr>votes_received := ?V\<rparr>"
        by (intro vote_response_grant_counts)
      have "(state (handle_vote_responses (a\<lparr>votes_received := ?V\<rparr>) ms) = LEADER) =
              (?G \<noteq> {} \<and> length (cluster_nodes a) < 2 * card (fset ?V \<union> ?G))"
        using Cons.IH [of "a\<lparr>votes_received := ?V\<rparr>"] Cons.prems by simp
      moreover have "\<not> length (cluster_nodes a) < 2 * card (fset ?V \<union> ?G)" if "?G = {}"
        using lose that by (simp add: fcard.rep_eq)
      moreover have "fset ?V \<union> ?G = fset (votes_received a) \<union> insert (from_node m) ?G"
        by auto
      ultimately show ?thesis
        using True by (auto simp add: handle_vote_responses_Cons a1 granted_voters_Cons)
    qed
  qed
qed

lemma election_iff:
  assumes "\<not> is_failed n" and "2 \<le> length (cluster_nodes n)"
  shows "(state (handle_vote_responses (fst (start_election n)) ms) = LEADER) =
           (length (cluster_nodes n)
              < 2 * card (insert (node_id n) (granted_voters (current_term n + 1) ms)))"
proof -
  let ?c = "fst (start_election n)"
  have c: "state ?c = CANDIDATE" "\<not> is_failed ?c" "current_term ?c = current_term n + 1"
    "votes_received ?c = {|node_id n|}" "cluster_nodes ?c = cluster_nodes n"
    using assms(1) by (simp_all add: start_election_def Let_def)
  have "(state (handle_vote_responses ?c ms) = LEADER) =
     (granted_voters (current_term ?c) ms \<noteq> {} \<and>
      length (cluster_nodes ?c)
        < 2 * card (fset (votes_received ?c) \<union> granted_voters (current_term ?c) ms))"
    using c(1,2) by (rule vote_responses_elect_iff)
  then show ?thesis using assms(2) by (auto simp add: c)
qed

subsection \<open>Other operations leave \<open>commit_index\<close> alone\<close>

lemma commit_start_election [simp]: "commit_index (fst (start_election n)) = commit_index n"
  by (simp add: start_election_def Let_def)

lemma commit_vote_request [simp]:
  "commit_index (fst (handle_vote_request n m)) = commit_index n"
  by (simp add: handle_vote_request_def Let_def)

lemma commit_append_entry [simp]: "commit_index (fst (append_entry n cmd)) = commit_index n"
  by (simp add: append_entry_def Let_def case_prod_beta)

subsection \<open>Every message a node sends is quiet while its \<open>commit_index\<close> is 0\<close>

lemma quiet_vote_request_msg [simp]: "quiet (vote_request_msg n node)"
  by (simp add: quiet_def vote_request_msg_def empty_data_def)

lemma quiet_vote_response_msg [simp]: "quiet (vote_response_msg n m)"
  by (simp add: quiet_def vote_response_msg_def empty_data_def)

lemma quiet_heartbeat_msg [simp]: "commit_index n = 0 \<Longrightarrow> quiet (heartbeat_msg n node)"
  by (simp add: quiet_def heartbeat_msg_def empty_data_def)









section \<open>Properties of the coordinator\<close>

lemma nodes_send_all [simp]: "nodes (send_all c ms) = nodes c"
  by (induction ms arbitrary: c) (simp_all add: send_all_def cluster_send_message_def)

lemma queue_send_all [simp]: "message_queue (send_all c ms) = message_queue c @ ms"
  by (induction ms arbitrary: c) (simp_all add: send_all_def cluster_send_message_def)

lemma queue_set_node [simp]: "message_queue (set_node c key n) = message_queue c"
  by (simp add: set_node_def)

lemma map_of_set_node:
  "map_of (nodes (set_node c key n)) k =
     (if k = key then map_option (\<lambda>_. n) (map_of (nodes c) key) else map_of (nodes c) k)"
proof -
  have "map_of (map (\<lambda>(k, v). if k = key then (k, n) else (k, v)) xs) k =
     (if k = key then map_option (\<lambda>_. n) (map_of xs key) else map_of xs k)" for xs
    by (induction xs) auto
  then show ?thesis by (simp add: set_node_def)
qed



lemma reachable_run: "reachable c \<Longrightarrow> reachable (run c evs)"
  unfolding run_def by (induction evs arbitrary: c) (simp_all add: reachable.step)

subsection \<open>The invariant \<open>commit_inv\<close>\<close>












subsection \<open>Delivery reads the addressee only\<close>



















subsection \<open>A pass of a node loop does not read the partition marks\<close>







subsection \<open>A cluster of one node\<close>

lemma solo_inv_init: "solo_inv i (RaftCluster_init [i] touts now)"
  by (simp add: solo_inv_def RaftCluster_init_def RaftNode_init_def dict_keys_def)

lemma solo_inv_step: "solo_inv i c \<Longrightarrow> solo_inv i (step c e)"
proof -
  assume inv: "solo_inv i c"
  then obtain n where c: "nodes c = [(i, n)]" "node_id n = i" "cluster_nodes n = [i]"
    "state n \<noteq> LEADER" "message_queue c = []"
    by (auto simp add: solo_inv_def map_eq_Cons_conv)
  have part: "solo_inv i (partition_one p c' key)" if "solo_inv i c'" for p c' key
    using that
    by (auto simp add: solo_inv_def partition_one_def set_node_def partition_node_def
          map_eq_Cons_conv split: option.splits if_splits)
  have parts: "solo_inv i (foldl (partition_one p) c' keys)" if "solo_inv i c'" for p c' keys
    using that by (induction keys arbitrary: c') (simp_all add: part)
  show ?thesis
  proof (cases e)
    case (RunNode key now)
    then show ?thesis using c
      by (auto simp add: solo_inv_def run_node_iteration_def start_election_def set_node_def
            send_heartbeat_def Let_def)
  next
    case (ProcessMessage now)
    then show ?thesis using inv c by (simp add: process_next_def)
  next
    case (AppendCommand cmd)
    then show ?thesis using inv c by (simp add: append_command_def get_leader_def)
  next
    case (FailNode key)
    then show ?thesis using c
      by (auto simp add: solo_inv_def cluster_fail_node_def set_node_def fail_node_def)
  next
    case (RecoverNode key now)
    then show ?thesis using c
      by (auto simp add: solo_inv_def cluster_recover_node_def set_node_def recover_node_def)
  next
    case (PartitionNodes keys p)
    then show ?thesis using inv by (simp add: partition_nodes_def parts)
  qed (use inv in \<open>simp_all add: solo_inv_def start_def stop_def\<close>)
qed

text \<open>
  Whatever happens to a cluster of one node, its node is never \<open>LEADER\<close>:
  \<open>start_election\<close> has no peer to ask, so no vote response ever arrives, and only
  \<open>handle_vote_response\<close> makes a leader.
\<close>

lemma solo_never_leader:
  "list_all (\<lambda>(k, n). state n \<noteq> LEADER) (nodes (run (RaftCluster_init [i] touts now) evs))"
proof -
  have "solo_inv i (foldl step c evs)" if "solo_inv i c" for c
    using that by (induction evs arbitrary: c) (simp_all add: solo_inv_step)
  then have "solo_inv i (run (RaftCluster_init [i] touts now) evs)"
    by (simp add: run_def solo_inv_init)
  then show ?thesis
    by (auto simp add: solo_inv_def list_all_iff)
qed

section \<open>The claims\<close>

subsection \<open>C1: election safety\<close>

text \<open>
  Claim C1 says that in a cluster without partitions at most one node is ever elected
  leader in a term. The code breaks this. Run on \<open>cluster3\<close>, the execution
  \<open>elect_n1 @ elect_n3\<close> (no partition is ever set) elects \<open>n1\<close> in term 1 and
  later \<open>n3\<close> in term 1 as well, both times with the vote of \<open>n2\<close>:
  \<open>handle_append_entries\<close> clears \<open>voted_for\<close> on a heartbeat of the \<^emph>\<open>same\<close> term,
  so \<open>n2\<close> forgets that it has voted in term 1, and \<open>n3\<close>, which was down during the
  first election, is still in term 0 when it comes back. No node ever leaves term 1.
\<close>

theorem two_leaders_elected_in_term_1:
  "elections cluster3 (elect_n1 @ elect_n3) = [(''n1'', 1), (''n3'', 1)]
   \<and> map (\<lambda>(k, n). (k, state n, current_term n, network_partition n))
        (nodes (run cluster3 (elect_n1 @ elect_n3)))
     = [(''n1'', FAILED, 1, False), (''n2'', FOLLOWER, 1, False), (''n3'', LEADER, 1, False)]
   \<and> reachable (run cluster3 (elect_n1 @ elect_n3))"
proof -
  have "elections cluster3 (elect_n1 @ elect_n3) = [(''n1'', 1), (''n3'', 1)]"
    by code_simp
  moreover have "map (\<lambda>(k, n). (k, state n, current_term n, network_partition n))
        (nodes (run cluster3 (elect_n1 @ elect_n3)))
     = [(''n1'', FAILED, 1, False), (''n2'', FOLLOWER, 1, False), (''n3'', LEADER, 1, False)]"
    by code_simp
  moreover have "reachable (run cluster3 (elect_n1 @ elect_n3))"
    unfolding cluster3_def by (rule reachable_run) (rule reachable.init)
  ultimately show ?thesis by simp
qed

subsection \<open>C2: what the leader learns from replication\<close>

text \<open>
  Counterexample to claim C2. In the execution \<open>replicate_b\<close> the leader \<open>n1\<close> of
  term 2 has sent its entry \<open>b\<close> (index 1, term 2) to both peers. \<open>n2\<close> accepts the
  message and \<open>n3\<close>, whose log is empty, rejects it. After both deliveries the leader's
  \<open>match_index\<close> for \<open>n2\<close> is still \<open>-1\<close>, its \<open>next_index\<close> for \<open>n3\<close> is still 1,
  nothing is queued for a retry, and its \<open>commit_index\<close> is still 0 although index 1
  carries the current term and is on two of the three nodes.
\<close>

theorem no_replication_feedback:
  "map (\<lambda>m. (to_node m,
              map_option (\<lambda>n. snd (handle_append_entries n 5 m))
                (map_of (nodes (run cluster3 replicate_b)) (to_node m))))
     (message_queue (run cluster3 replicate_b))
     = [(''n2'', Some (Inr True)), (''n3'', Some (Inr False))]
   \<and> map (\<lambda>(k, n). (k, state n, current_term n, map entry_term (log_entries n), commit_index n))
        (nodes (run cluster3 (replicate_b @ [ProcessMessage 5, ProcessMessage 5])))
     = [(''n1'', LEADER, 2, [1, 2], 0), (''n2'', FOLLOWER, 2, [1, 2], 0),
        (''n3'', FOLLOWER, 2, [], 0)]
   \<and> map_option (\<lambda>n. (match_index n ''n2'', next_index n ''n3''))
        (map_of (nodes (run cluster3 replicate_b)) ''n1'')
     = Some (Some (- 1), Some 1)
   \<and> map_option (\<lambda>n. (match_index n ''n2'', next_index n ''n3''))
        (map_of (nodes (run cluster3 (replicate_b @ [ProcessMessage 5, ProcessMessage 5]))) ''n1'')
     = Some (Some (- 1), Some 1)
   \<and> message_queue (run cluster3 (replicate_b @ [ProcessMessage 5, ProcessMessage 5])) = []"
proof -
  have "map (\<lambda>m. (to_node m,
              map_option (\<lambda>n. snd (handle_append_entries n 5 m))
                (map_of (nodes (run cluster3 replicate_b)) (to_node m))))
     (message_queue (run cluster3 replicate_b))
     = [(''n2'', Some (Inr True)), (''n3'', Some (Inr False))]"
    by code_simp
  moreover have "map (\<lambda>(k, n). (k, state n, current_term n, map entry_term (log_entries n), commit_index n))
        (nodes (run cluster3 (replicate_b @ [ProcessMessage 5, ProcessMessage 5])))
     = [(''n1'', LEADER, 2, [1, 2], 0), (''n2'', FOLLOWER, 2, [1, 2], 0),
        (''n3'', FOLLOWER, 2, [], 0)]"
    by code_simp
  moreover have "map_option (\<lambda>n. (match_index n ''n2'', next_index n ''n3''))
        (map_of (nodes (run cluster3 replicate_b)) ''n1'')
     = Some (Some (- 1), Some 1)"
    by code_simp
  moreover have "map_option (\<lambda>n. (match_index n ''n2'', next_index n ''n3''))
        (map_of (nodes (run cluster3 (replicate_b @ [ProcessMessage 5, ProcessMessage 5]))) ''n1'')
     = Some (Some (- 1), Some 1)"
    by code_simp
  moreover have "message_queue (run cluster3 (replicate_b @ [ProcessMessage 5, ProcessMessage 5])) = []"
    by code_simp
  ultimately show ?thesis by simp
qed

text \<open>
  Claim C2, amended. The leader gets no feedback from replication. Handling a message
  changes no node but the one it is addressed to, and handling an \<open>append_entries\<close>
  message queues nothing (the boolean result is dropped, there is no response message),
  so a peer's acceptance or rejection leaves the leader's \<open>next_index\<close>, \<open>match_index\<close>
  and \<open>commit_index\<close> as they were. \<open>become_leader\<close> sets \<open>next_index\<close> to the length of
  the log and \<open>match_index\<close> to \<open>-1\<close> for every peer, and \<open>append_entry\<close> changes neither
  of the two maps nor \<open>commit_index\<close>.
\<close>

theorem replication_gives_no_feedback:
  assumes "key \<noteq> to_node m"
  shows "map_of (nodes (fst (deliver c now m))) key = map_of (nodes c) key
     \<and> (msg_type m = ''append_entries'' \<longrightarrow>
          message_queue (fst (deliver c now m)) = message_queue c)
     \<and> (peer \<in> set (cluster_nodes n) \<and> peer \<noteq> node_id n \<longrightarrow>
          next_index (fst (become_leader n)) peer = Some (int (length (log_entries n)))
        \<and> match_index (fst (become_leader n)) peer = Some (- 1))
     \<and> next_index (fst (append_entry n cmd)) = next_index n
     \<and> match_index (fst (append_entry n cmd)) = match_index n
     \<and> commit_index (fst (append_entry n cmd)) = commit_index n"
proof -
  have "map_of (nodes (fst (deliver c now m))) key = map_of (nodes c) key"
    using assms
    by (auto simp add: deliver_def map_of_set_node case_prod_beta Let_def split: option.splits)
  moreover have "message_queue (fst (deliver c now m)) = message_queue c"
    if "msg_type m = ''append_entries''"
    using that by (auto simp add: deliver_def case_prod_beta Let_def split: option.splits)
  moreover have "next_index (fst (become_leader n)) peer = Some (int (length (log_entries n)))"
    and "match_index (fst (become_leader n)) peer = Some (- 1)"
    if "peer \<in> set (cluster_nodes n) \<and> peer \<noteq> node_id n"
    using that
    by (simp_all add: become_leader_def Let_def next_index_foldl_init_leader_state
          match_index_foldl_init_leader_state)
  moreover have "next_index (fst (append_entry n cmd)) = next_index n"
    and "match_index (fst (append_entry n cmd)) = match_index n"
    by (simp_all add: append_entry_def Let_def case_prod_beta)
  ultimately show ?thesis by simp
qed

theorem replication_gives_no_feedback_witness:
  "map_of (nodes (fst (deliver (run cluster3 replicate_b) 5
       (hd (message_queue (run cluster3 replicate_b)))))) ''n1''
     = map_of (nodes (run cluster3 replicate_b)) ''n1''
   \<and> message_queue (fst (deliver (run cluster3 replicate_b) 5
       (hd (message_queue (run cluster3 replicate_b)))))
     = message_queue (run cluster3 replicate_b)
   \<and> next_index (fst (become_leader voter_with_log)) ''n3'' = Some 1
   \<and> to_node (hd (message_queue (run cluster3 replicate_b))) = ''n2''"
proof -
  let ?c = "run cluster3 replicate_b"
  let ?m = "hd (message_queue ?c)"
  have to: "to_node ?m = ''n2''" and ty: "msg_type ?m = ''append_entries''"
    by code_simp+
  have key: "''n1'' \<noteq> to_node ?m" using to by simp
  have peer: "''n3'' \<in> set (cluster_nodes voter_with_log) \<and> ''n3'' \<noteq> node_id voter_with_log"
    by (simp add: voter_with_log_def RaftNode_init_def ids3_def)
  have len: "int (length (log_entries voter_with_log)) = 1"
    by (simp add: voter_with_log_def)
  from replication_gives_no_feedback [OF key, of ?c 5 "''n3''" voter_with_log] ty peer len to
  show ?thesis by simp
qed

subsection \<open>C3: log recency is not a condition of a vote\<close>

lemma vote_request_data_ignored:
  "handle_vote_request n (m\<lparr>data := d\<rparr>) = handle_vote_request n m"
  by (auto simp add: handle_vote_request_def vote_response_msg_def Let_def)

text \<open>
  Claim C3 says that a node refuses its vote to a candidate whose last log entry is
  less up to date than its own, and the comment in \<open>handle_vote_request\<close> says so too
  (``Vote if haven't voted and candidate's log is up-to-date''). The code never reads
  the request's \<open>last_log_index\<close> and \<open>last_log_term\<close>: \<open>voter_with_log\<close>, whose last
  entry has term 1, gets a request of term 2 from a candidate with an empty log (last
  log term 0, last log index \<open>-1\<close>), grants the vote and sends the response.
\<close>

theorem vote_granted_to_stale_log:
  "data (request_in_term 2) =
     Some (empty_data\<lparr>last_log_index := Some (- 1), last_log_term := Some 0\<rparr>)
   \<and> last_log_term_of (log_entries voter_with_log) = 1
   \<and> last_log_index_of (log_entries voter_with_log) = 0
   \<and> handle_vote_request voter_with_log (request_in_term 2) =
       (voter_with_log\<lparr>current_term := 2, voted_for := Some ''n1''\<rparr>,
        [\<lparr>msg_type = ''vote_response'', from_node = ''n2'', to_node = ''n1'', msg_term = 2,
          data = Some (empty_data\<lparr>vote_granted := Some True\<rparr>)\<rparr>],
        True)"
  by (simp add: request_in_term_def voter_with_log_def vote_request_msg_def
        handle_vote_request_def vote_response_msg_def RaftNode_init_def
        last_log_term_of_def last_log_index_of_def Let_def)

subsection \<open>C4: commit monotonicity\<close>

text \<open>
  What an accepted \<open>AppendEntries\<close> does to \<open>commit_index\<close>: nothing when
  \<open>leader_commit\<close> is not above it, and otherwise the minimum of \<open>leader_commit\<close> and
  the last index of the log after the append. In the executions of the cluster
  \<open>leader_commit\<close> is never above \<open>commit_index\<close>, which is what \<open>commit_inv\<close> says.
\<close>

lemma commit_index_after_accepted_append_entries:
  assumes "snd (handle_append_entries n now m) = Inr True"
    and "data m = Some d" and "leader_commit d = Some lc"
  shows "commit_index (fst (handle_append_entries n now m)) =
           (if commit_index n < lc
            then min lc (int (length (log_entries (fst (handle_append_entries n now m)))) - 1)
            else commit_index n)"
  using assms
  by (auto simp add: handle_append_entries_def Let_def split: option.splits if_splits)



subsection \<open>C5: which messages are dropped\<close>




subsection \<open>C6: stepping down\<close>

text \<open>
  Counterexample to claim C6. \<open>candidate_n2\<close> is a candidate of term 3 that has voted
  for itself. A vote request of the same term 3 leaves it untouched: it stays
  \<open>CANDIDATE\<close>, \<open>voted_for\<close> is not cleared, and no vote is granted.
\<close>

theorem candidate_keeps_role_on_equal_term_request:
  "current_term candidate_n2 \<le> msg_term (request_in_term 3)
   \<and> \<not> is_failed candidate_n2
   \<and> handle_vote_request candidate_n2 (request_in_term 3) = (candidate_n2, [], False)
   \<and> state candidate_n2 = CANDIDATE \<and> voted_for candidate_n2 = Some ''n2''"
  by (simp add: candidate_n2_def request_in_term_def vote_request_msg_def
        handle_vote_request_def RaftNode_init_def Let_def)

text \<open>
  Claim C6, amended. For a node that is not failed, in any role: an \<open>AppendEntries\<close>
  message \<open>m\<close> whose term is at least the node's term leaves the node a \<open>FOLLOWER\<close>
  in the message's term with \<open>voted_for\<close> cleared and \<open>last_heartbeat\<close> reset to the
  clock reading. A \<open>VoteRequest\<close> \<open>r\<close> whose term is strictly greater than the node's
  term leaves the node a \<open>FOLLOWER\<close> in the request's term; \<open>voted_for\<close> is cleared
  first, so the vote is then granted and recorded for the sender whatever the node had
  voted before. A \<open>VoteRequest\<close> whose term is at most the node's term changes neither
  the role nor the term. No \<open>VoteRequest\<close> resets \<open>last_heartbeat\<close>.
\<close>

theorem step_down_on_message:
  assumes "\<not> is_failed n"
  shows "(current_term n \<le> msg_term m \<longrightarrow>
            state (fst (handle_append_entries n now m)) = FOLLOWER
          \<and> current_term (fst (handle_append_entries n now m)) = msg_term m
          \<and> voted_for (fst (handle_append_entries n now m)) = None
          \<and> last_heartbeat (fst (handle_append_entries n now m)) = now)
       \<and> (current_term n < msg_term r \<longrightarrow>
            handle_vote_request n r =
              (n\<lparr>current_term := msg_term r, voted_for := Some (from_node r), state := FOLLOWER\<rparr>,
               [vote_response_msg (n\<lparr>current_term := msg_term r\<rparr>) r], True))
       \<and> (msg_term r \<le> current_term n \<longrightarrow>
            state (fst (handle_vote_request n r)) = state n
          \<and> current_term (fst (handle_vote_request n r)) = current_term n)
       \<and> last_heartbeat (fst (handle_vote_request n r)) = last_heartbeat n"
  using assms
  by (auto simp add: state_append_entries current_term_append_entries voted_for_append_entries
        last_heartbeat_append_entries handle_vote_request_def Let_def vote_response_msg_def)

theorem step_down_on_message_witness:
  "state (fst (handle_append_entries candidate_n2 7 probe_at_0)) = FOLLOWER
   \<and> current_term (fst (handle_append_entries candidate_n2 7 probe_at_0)) = 4
   \<and> voted_for (fst (handle_append_entries candidate_n2 7 probe_at_0)) = None
   \<and> last_heartbeat (fst (handle_append_entries candidate_n2 7 probe_at_0)) = 7
   \<and> handle_vote_request candidate_n2 (request_in_term 4) =
       (candidate_n2\<lparr>current_term := 4, voted_for := Some ''n1'', state := FOLLOWER\<rparr>,
        [vote_response_msg (candidate_n2\<lparr>current_term := 4\<rparr>) (request_in_term 4)], True)
   \<and> last_heartbeat (fst (handle_vote_request candidate_n2 (request_in_term 4))) = 0"
proof -
  have nf: "\<not> is_failed candidate_n2"
    by (simp add: candidate_n2_def RaftNode_init_def)
  have a: "current_term candidate_n2 \<le> msg_term probe_at_0"
    and b: "current_term candidate_n2 < msg_term (request_in_term 4)"
    and c: "msg_term probe_at_0 = 4" "msg_term (request_in_term 4) = 4"
      "from_node (request_in_term 4) = ''n1''" "last_heartbeat candidate_n2 = 0"
    by (simp_all add: candidate_n2_def probe_at_0_def request_in_term_def vote_request_msg_def
          RaftNode_init_def)
  from step_down_on_message [OF nf, of probe_at_0 7 "request_in_term 4"] a b c
  show ?thesis by simp
qed

subsection \<open>C7: election by strict majority\<close>

text \<open>
  Counterexample to claim C7. In a cluster of one node the candidate holds its own
  vote, which is one vote of one and so strictly more than half, and it is still in the
  term of its election; but \<open>start_election\<close> has no peer to ask, nothing is queued,
  and the node is not made \<open>LEADER\<close>, neither then nor when it times out again
  (\<open>solo_never_leader\<close>: never, whatever happens).
\<close>

theorem solo_candidate_is_not_elected:
  "map (\<lambda>(k, n). (k, state n, current_term n, fcard (votes_received n), length (cluster_nodes n)))
     (nodes (run cluster_solo [Start, RunNode ''n1'' 2]))
     = [(''n1'', CANDIDATE, 1, 1, 1)]
   \<and> message_queue (run cluster_solo [Start, RunNode ''n1'' 2]) = []
   \<and> elections cluster_solo solo_campaign = []
   \<and> map (\<lambda>(k, n). (k, state n, current_term n, fcard (votes_received n), length (cluster_nodes n)))
       (nodes (run cluster_solo solo_campaign))
     = [(''n1'', CANDIDATE, 2, 1, 1)]"
proof -
  have "map (\<lambda>(k, n). (k, state n, current_term n, fcard (votes_received n), length (cluster_nodes n)))
     (nodes (run cluster_solo [Start, RunNode ''n1'' 2]))
     = [(''n1'', CANDIDATE, 1, 1, 1)]"
    by code_simp
  moreover have "message_queue (run cluster_solo [Start, RunNode ''n1'' 2]) = []"
    by code_simp
  moreover have "elections cluster_solo solo_campaign = []"
    by code_simp
  moreover have "map (\<lambda>(k, n). (k, state n, current_term n, fcard (votes_received n), length (cluster_nodes n)))
       (nodes (run cluster_solo solo_campaign))
     = [(''n1'', CANDIDATE, 2, 1, 1)]"
    by code_simp
  ultimately show ?thesis by simp
qed

text \<open>
  Claim C7, amended. In a cluster of two or more nodes, a node that starts an election
  (and is not failed) and then handles vote responses, any number of them in any order,
  is \<open>LEADER\<close> afterwards exactly when the distinct senders of the responses that grant
  the vote in the term of the election, together with the candidate itself, are
  strictly more than half of \<open>cluster_nodes\<close>. Responses of another term and responses
  that do not grant the vote do not count. \<open>start_election\<close> makes the node a
  \<open>CANDIDATE\<close> in the next term with its own vote as the only one counted. A single
  response makes a node \<open>LEADER\<close> exactly when the node is a \<open>CANDIDATE\<close> (not failed),
  the response grants the vote in the node's term, and the voters counted with it are
  strictly more than half. No other operation turns a node into a \<open>LEADER\<close>, a vote
  response never changes the term, and a node that is still \<open>CANDIDATE\<close> after a vote
  request or an \<open>AppendEntries\<close> has kept its term.
\<close>

theorem candidate_elected_iff_majority_of_grants:
  assumes "\<not> is_failed n" and "2 \<le> length (cluster_nodes n)"
  shows "(state (handle_vote_responses (fst (start_election n)) ms) = LEADER \<longleftrightarrow>
            length (cluster_nodes n)
              < 2 * card (insert (node_id n) (granted_voters (current_term n + 1) ms)))
     \<and> state (fst (start_election n)) = CANDIDATE
     \<and> current_term (fst (start_election n)) = current_term n + 1
     \<and> votes_received (fst (start_election n)) = {|node_id n|}
     \<and> (state (fst (handle_vote_response a m)) = LEADER \<longleftrightarrow>
          state a = LEADER \<or>
          (state a = CANDIDATE \<and> \<not> is_failed a \<and> is_grant (current_term a) m \<and>
           length (cluster_nodes a) < 2 * fcard (finsert (from_node m) (votes_received a))))
     \<and> (state (fst (start_election a)) = LEADER \<longleftrightarrow> state a = LEADER \<and> is_failed a)
     \<and> (state (fst (handle_vote_request a m)) = LEADER \<longleftrightarrow>
          state a = LEADER \<and> (is_failed a \<or> msg_term m \<le> current_term a))
     \<and> (state (fst (handle_append_entries a now m)) = LEADER \<longleftrightarrow>
          state a = LEADER \<and> (is_failed a \<or> msg_term m < current_term a))
     \<and> state (fst (append_entry a cmd)) = state a
     \<and> state (fail_node a) = FAILED \<and> state (recover_node a now) = FOLLOWER
     \<and> state (partition_node a p) = state a
     \<and> current_term (fst (handle_vote_response a m)) = current_term a
     \<and> (state (fst (handle_vote_request a m)) = CANDIDATE \<longrightarrow>
          state a = CANDIDATE \<and> current_term (fst (handle_vote_request a m)) = current_term a)
     \<and> (state (fst (handle_append_entries a now m)) = CANDIDATE \<longrightarrow>
          state a = CANDIDATE
        \<and> current_term (fst (handle_append_entries a now m)) = current_term a)"
proof -
  have "state (handle_vote_responses (fst (start_election n)) ms) = LEADER \<longleftrightarrow>
          length (cluster_nodes n)
            < 2 * card (insert (node_id n) (granted_voters (current_term n + 1) ms))"
    using assms by (rule election_iff)
  moreover have "state (fst (start_election n)) = CANDIDATE"
    "current_term (fst (start_election n)) = current_term n + 1"
    "votes_received (fst (start_election n)) = {|node_id n|}"
    using assms(1) by (simp_all add: start_election_def Let_def)
  moreover have "state (fst (handle_vote_response a m)) = LEADER \<longleftrightarrow>
      state a = LEADER \<or>
      (state a = CANDIDATE \<and> \<not> is_failed a \<and> is_grant (current_term a) m \<and>
       length (cluster_nodes a) < 2 * fcard (finsert (from_node m) (votes_received a)))"
    by (auto simp add: handle_vote_response_def is_grant_def Let_def case_prod_beta
          split: option.splits)
  moreover have "state (fst (start_election a)) = LEADER \<longleftrightarrow> state a = LEADER \<and> is_failed a"
    by (simp add: start_election_def Let_def)
  moreover have "state (fst (handle_vote_request a m)) = LEADER \<longleftrightarrow>
        state a = LEADER \<and> (is_failed a \<or> msg_term m \<le> current_term a)"
    by (auto simp add: handle_vote_request_def Let_def)
  moreover have "state (fst (handle_append_entries a now m)) = LEADER \<longleftrightarrow>
        state a = LEADER \<and> (is_failed a \<or> msg_term m < current_term a)"
    by (auto simp add: state_append_entries)
  moreover have "state (fst (append_entry a cmd)) = state a"
    by (simp add: append_entry_def Let_def case_prod_beta)
  moreover have "state (fail_node a) = FAILED" "state (recover_node a now) = FOLLOWER"
    "state (partition_node a p) = state a"
    by (simp_all add: fail_node_def recover_node_def partition_node_def)
  moreover have "current_term (fst (handle_vote_response a m)) = current_term a"
    by (rule current_term_vote_response)
  moreover have "state a = CANDIDATE \<and> current_term (fst (handle_vote_request a m)) = current_term a"
    if "state (fst (handle_vote_request a m)) = CANDIDATE"
    using that by (auto simp add: handle_vote_request_def Let_def split: if_splits)
  moreover have "state a = CANDIDATE
      \<and> current_term (fst (handle_append_entries a now m)) = current_term a"
    if "state (fst (handle_append_entries a now m)) = CANDIDATE"
    using that
    by (auto simp add: state_append_entries current_term_append_entries split: if_splits)
  ultimately show ?thesis by simp
qed

theorem candidate_elected_iff_majority_of_grants_witness:
  "state (handle_vote_responses (fst (start_election (RaftNode_init ''n2'' ids5 3 0)))
            [grant_from ''n1'' 1, grant_from ''n1'' 1, grant_from ''n4'' 7, grant_from ''n3'' 1])
     = LEADER
   \<and> state (handle_vote_responses (fst (start_election (RaftNode_init ''n2'' ids5 3 0)))
            [grant_from ''n1'' 1, grant_from ''n1'' 1, grant_from ''n4'' 7])
     \<noteq> LEADER"
proof -
  let ?n = "RaftNode_init ''n2'' ids5 3 0"
  have nf: "\<not> is_failed ?n" and len: "2 \<le> length (cluster_nodes ?n)"
    by (simp_all add: RaftNode_init_def ids5_def)
  have n: "length (cluster_nodes ?n) = 5" "node_id ?n = ''n2''" "current_term ?n + 1 = 1"
    by (simp_all add: RaftNode_init_def ids5_def)
  have g: "is_grant 1 (grant_from v t) = (t = 1)" "from_node (grant_from v t) = v" for v t
    by (auto simp add: is_grant_def grant_from_def)
  have "granted_voters 1 [grant_from ''n1'' 1, grant_from ''n1'' 1, grant_from ''n4'' 7,
          grant_from ''n3'' 1] = {''n1'', ''n3''}"
    and "granted_voters 1 [grant_from ''n1'' 1, grant_from ''n1'' 1, grant_from ''n4'' 7]
          = {''n1''}"
    by (auto simp add: granted_voters_def g)
  with candidate_elected_iff_majority_of_grants
      [OF nf len, where ms = "[grant_from ''n1'' 1, grant_from ''n1'' 1, grant_from ''n4'' 7,
          grant_from ''n3'' 1]", THEN conjunct1]
    candidate_elected_iff_majority_of_grants
      [OF nf len, where ms = "[grant_from ''n1'' 1, grant_from ''n1'' 1, grant_from ''n4'' 7]",
         THEN conjunct1]
  show ?thesis by (simp add: n)
qed

subsection \<open>C8: appending a command\<close>

lemma get_leader_None_iff:
  "get_leader c = None \<longleftrightarrow> \<not> (\<exists>(k, n) \<in> set (nodes c). state n = LEADER \<and> \<not> is_failed n)"
proof (cases "filter (\<lambda>(k, n). state n = LEADER \<and> \<not> is_failed n) (nodes c)")
  case Nil
  then have "\<forall>x \<in> set (nodes c). \<not> (case x of (k, n) \<Rightarrow> state n = LEADER \<and> \<not> is_failed n)"
    by (simp add: filter_empty_conv)
  with Nil show ?thesis by (simp add: get_leader_def)
next
  case (Cons x xs)
  then have "x \<in> set (filter (\<lambda>(k, n). state n = LEADER \<and> \<not> is_failed n) (nodes c))"
    by simp
  then have "\<exists>x \<in> set (nodes c). case x of (k, n) \<Rightarrow> state n = LEADER \<and> \<not> is_failed n"
    by auto
  with Cons show ?thesis by (simp add: get_leader_def split: prod.splits)
qed

lemma append_command_no_leader:
  "get_leader c = None \<Longrightarrow> append_command c cmd = (c, Inr False)"
  by (simp add: append_command_def)

lemma append_command_routes:
  "get_leader c = Some leader_id \<Longrightarrow> leader_id \<noteq> [] \<Longrightarrow> map_of (nodes c) leader_id = Some n \<Longrightarrow>
     append_command c cmd =
       (send_all (set_node c leader_id (fst (append_entry n cmd))) (fst (snd (append_entry n cmd))),
        snd (snd (append_entry n cmd)))"
  by (simp add: append_command_def case_prod_beta)

text \<open>
  Claim C8 says that \<open>append_command\<close> fails only when no node that is not failed
  reports \<open>LEADER\<close>, and otherwise routes the command to that leader and returns the
  leader's result. \<open>append_command\<close> tests \<open>if leader_id:\<close>, the truth value of the
  id that \<open>get_leader\<close> returns, and the empty string is a false value. In
  \<open>cluster_anon\<close> the node with the empty id wins the election \<open>elect_anon\<close>;
  \<open>get_leader\<close> reports it, the leader's own \<open>append_entry\<close> would return \<open>True\<close>,
  and yet \<open>append_command\<close> returns \<open>False\<close> and leaves the cluster as it was.
\<close>

theorem empty_leader_id_not_routed:
  "get_leader (run cluster_anon elect_anon) = Some []
   \<and> map (\<lambda>(k, n). (k, state n, is_failed n)) (nodes (run cluster_anon elect_anon))
     = [([], LEADER, False), (''b'', FOLLOWER, False)]
   \<and> append_command (run cluster_anon elect_anon) ''x'' = (run cluster_anon elect_anon, Inr False)
   \<and> map_option (\<lambda>n. snd (snd (append_entry n ''x'')))
       (map_of (nodes (run cluster_anon elect_anon)) []) = Some (Inr True)
   \<and> reachable (run cluster_anon elect_anon)"
proof -
  have l: "get_leader (run cluster_anon elect_anon) = Some []"
    by code_simp
  moreover have "map (\<lambda>(k, n). (k, state n, is_failed n)) (nodes (run cluster_anon elect_anon))
     = [([], LEADER, False), (''b'', FOLLOWER, False)]"
    by code_simp
  moreover have "append_command (run cluster_anon elect_anon) ''x''
      = (run cluster_anon elect_anon, Inr False)"
    using l by (simp add: append_command_def)
  moreover have "map_option (\<lambda>n. snd (snd (append_entry n ''x'')))
       (map_of (nodes (run cluster_anon elect_anon)) []) = Some (Inr True)"
    by code_simp
  moreover have "reachable (run cluster_anon elect_anon)"
    unfolding cluster_anon_def by (rule reachable_run) (rule reachable.init)
  ultimately show ?thesis by simp
qed

text \<open>
  So a cluster can have a leader that is not failed while \<open>append_command\<close> reports
  failure.
\<close>

theorem empty_leader_id_not_routed_witness:
  "get_leader (run cluster_anon elect_anon) \<noteq> None
   \<and> snd (append_command (run cluster_anon elect_anon) ''x'') = Inr False"
  using empty_leader_id_not_routed by simp

subsection \<open>C9: a rejected \<open>AppendEntries\<close> still changes the node\<close>

text \<open>
  Claim C9. When \<open>handle_append_entries\<close> on a node that is not failed gets a message
  whose term is at least the node's term and rejects it at the log-consistency check
  (it returns \<open>False\<close>), the node it leaves behind is the old node with the message's
  term, state \<open>FOLLOWER\<close>, no vote and \<open>last_heartbeat\<close> set to the clock reading: the
  log, \<open>commit_index\<close> and every other field are as before, but the rejection has
  changed the node.
\<close>

theorem append_entries_rejection_not_atomic:
  assumes "\<not> is_failed n" and "current_term n \<le> msg_term m"
    and "data m = Some d" and "prev_log_index d = Some pli" and "prev_log_term d = Some plt"
    and "0 \<le> pli"
    and "int (length (log_entries n)) \<le> pli \<or> entry_term (log_entries n ! nat pli) \<noteq> plt"
  shows "handle_append_entries n now m =
           (n\<lparr>current_term := msg_term m, state := FOLLOWER, voted_for := None,
              last_heartbeat := now\<rparr>, Inr False)"
  using assms by (auto simp add: handle_append_entries_def Let_def)

theorem append_entries_rejection_not_atomic_witness:
  "handle_append_entries candidate_n2 7 probe_at_0 =
     (candidate_n2\<lparr>current_term := 4, state := FOLLOWER, voted_for := None,
                   last_heartbeat := 7\<rparr>, Inr False)
   \<and> state candidate_n2 = CANDIDATE \<and> current_term candidate_n2 = 3
   \<and> voted_for candidate_n2 = Some ''n2'' \<and> last_heartbeat candidate_n2 = 0"
proof -
  have "handle_append_entries candidate_n2 7 probe_at_0 =
          (candidate_n2\<lparr>current_term := msg_term probe_at_0, state := FOLLOWER,
                        voted_for := None, last_heartbeat := 7\<rparr>, Inr False)"
    by (rule append_entries_rejection_not_atomic
          [where d = "empty_data\<lparr>prev_log_index := Some 0, prev_log_term := Some 1,
                                 entries := Some [], leader_commit := Some 0\<rparr>"
             and pli = 0 and plt = 1])
       (simp_all add: candidate_n2_def probe_at_0_def RaftNode_init_def empty_data_def)
  then show ?thesis
    by (simp add: candidate_n2_def probe_at_0_def RaftNode_init_def)
qed

subsection \<open>C10: votes are counted per voter\<close>



end
